theory Spec2Isabelle
  imports Main
begin

section \<open>Responses of the route handlers\<close>

text \<open>
  Every handler of \<^verbatim>\<open>routes/api\<close> ends in exactly one of three ways:
  \<^verbatim>\<open>res.json(payload)\<close> (status 200), \<^verbatim>\<open>res.status(n).json(obj)\<close> with a literal
  object, or \<^verbatim>\<open>res.status(500).send('Server Error')\<close> from a \<^verbatim>\<open>catch\<close> block.
  The literal objects are kept as JSON values, so that two bodies with different keys are
  different values.
\<close>

datatype json = JString string | JArray "json list" | JObject "(string \<times> json) list"

datatype 'a response =
    Success 'a
  | Failure nat json
  | ServerError

definition msg :: "string \<Rightarrow> json" where
  \<comment> \<open>the object literal \<^verbatim>\<open>{ msg: m }\<close>\<close>
  "msg m = JObject [(''msg'', JString m)]"

text \<open>Exceptions a handler's \<^verbatim>\<open>try\<close> block can meet in this model.\<close>

datatype error =
    CastError   \<comment> \<open>thrown by \<^verbatim>\<open>findById\<close> on a malformed id; \<^verbatim>\<open>err.kind === 'ObjectId'\<close>\<close>
  | TypeError   \<comment> \<open>reading a property of \<^verbatim>\<open>null\<close>\<close>

section \<open>The JavaScript array operations the handlers use\<close>

text \<open>
  \<^verbatim>\<open>Array.prototype.indexOf\<close>: the first index whose element is strictly equal to the
  argument, and \<open>-1\<close> when there is none.
\<close>

fun indexOf :: "'a list \<Rightarrow> 'a \<Rightarrow> int" where
  "indexOf [] x = - 1"
| "indexOf (y # ys) x =
     (if y = x then 0
      else (let i = indexOf ys x in if i < 0 then - 1 else i + 1))"

text \<open>
  \<^verbatim>\<open>Array.prototype.splice(start, deleteCount)\<close> with no inserted items, as the array it
  leaves behind. A negative \<open>start\<close> counts from the end (\<open>max (len + start) 0\<close>), a
  \<open>start\<close> beyond the end is the length.
\<close>

definition splice :: "'a list \<Rightarrow> int \<Rightarrow> nat \<Rightarrow> 'a list" where
  "splice xs start deleteCount =
     (let len = int (length xs);
          actualStart = (if start < 0 then max (len + start) 0 else min start len);
          k = nat actualStart
      in take k xs @ drop (k + deleteCount) xs)"

section \<open>Posts with their likes and comments\<close>

text \<open>
  The field \<^verbatim>\<open>user\<close> occurs in likes, comments and posts; record fields are global
  names, so each carries its document's name as a prefix. Identifiers are the strings the
  handlers compare (\<^verbatim>\<open>like.user.toString()\<close>, \<^verbatim>\<open>comment.id\<close>, \<^verbatim>\<open>req.user.id\<close>).
\<close>

record like =
  like_user :: string

record comment =
  comment_id :: string
  comment_text :: string
  comment_name :: string
  comment_avatar :: string
  comment_user :: string

record post =
  post_text :: string
  post_name :: string
  post_avatar :: string
  post_user :: string
  likes :: "like list"
  comments :: "comment list"

text \<open>The Posts collection, keyed by the document id.\<close>

type_synonym posts = "string \<rightharpoonup> post"

text \<open>
  \<^verbatim>\<open>Posts.findById(id)\<close>: the cast of a malformed id throws, otherwise the document or
  \<^verbatim>\<open>null\<close>. Which strings are well-formed ids is decided by the driver; it is the
  parameter \<open>oid\<close>.
\<close>

definition findById :: "(string \<Rightarrow> bool) \<Rightarrow> (string \<rightharpoonup> 'a) \<Rightarrow> string \<Rightarrow> error + 'a option" where
  "findById oid db i = (if oid i then Inr (db i) else Inl CastError)"

definition not_found :: "'a response" where
  "not_found = Failure 404 (msg ''Post Not Found'')"

text \<open>
  The \<^verbatim>\<open>catch\<close> block shared by the handlers of \<^verbatim>\<open>GET /:id\<close>, \<^verbatim>\<open>DELETE /:id\<close>,
  \<^verbatim>\<open>PUT /like/:id\<close> and \<^verbatim>\<open>PUT /unlike/:id\<close>.
\<close>

fun catch_post :: "error \<Rightarrow> 'a response" where
  "catch_post CastError = not_found"
| "catch_post TypeError = ServerError"

text \<open>\<^verbatim>\<open>GET api/posts/:id\<close>\<close>

definition get_post :: "(string \<Rightarrow> bool) \<Rightarrow> posts \<Rightarrow> string \<Rightarrow> post response" where
  "get_post oid db pid =
     (case findById oid db pid of
        Inl err \<Rightarrow> catch_post err
      | Inr None \<Rightarrow> not_found
      | Inr (Some p) \<Rightarrow> Success p)"

text \<open>\<^verbatim>\<open>DELETE api/posts/:id\<close>; \<open>uid\<close> is \<^verbatim>\<open>req.user.id\<close>.\<close>

definition delete_post :: "(string \<Rightarrow> bool) \<Rightarrow> posts \<Rightarrow> string \<Rightarrow> string \<Rightarrow> json response \<times> posts" where
  "delete_post oid db uid pid =
     (case findById oid db pid of
        Inl err \<Rightarrow> (catch_post err, db)
      | Inr None \<Rightarrow> (not_found, db)
      | Inr (Some p) \<Rightarrow>
          if post_user p \<noteq> uid then (Failure 401 (msg ''User not authorised''), db)
          else (Success (msg ''Post Removed''), db(pid := None)))"

text \<open>\<^verbatim>\<open>PUT api/posts/like/:id\<close>\<close>

definition put_like :: "(string \<Rightarrow> bool) \<Rightarrow> posts \<Rightarrow> string \<Rightarrow> string \<Rightarrow> like list response \<times> posts" where
  "put_like oid db uid pid =
     (case findById oid db pid of
        Inl err \<Rightarrow> (catch_post err, db)
      | Inr None \<Rightarrow> (not_found, db)
      | Inr (Some p) \<Rightarrow>
          (let alreadyLiked = filter (\<lambda>l. like_user l = uid) (likes p)
           in if length alreadyLiked > 0 then (Failure 400 (msg ''Post already liked''), db)
              else (let p' = p\<lparr>likes := \<lparr>like_user = uid\<rparr> # likes p\<rparr>
                    in (Success (likes p'), db(pid \<mapsto> p')))))"

text \<open>\<^verbatim>\<open>PUT api/posts/unlike/:id\<close>\<close>

definition put_unlike :: "(string \<Rightarrow> bool) \<Rightarrow> posts \<Rightarrow> string \<Rightarrow> string \<Rightarrow> like list response \<times> posts" where
  "put_unlike oid db uid pid =
     (case findById oid db pid of
        Inl err \<Rightarrow> (catch_post err, db)
      | Inr None \<Rightarrow> (not_found, db)
      | Inr (Some p) \<Rightarrow>
          (let alreadyLiked = filter (\<lambda>l. like_user l = uid) (likes p)
           in if length alreadyLiked = 0 then (Failure 400 (msg ''Post has not yet been liked''), db)
              else (let removeIndex = indexOf (map like_user (likes p)) uid;
                        p' = p\<lparr>likes := splice (likes p) removeIndex 1\<rparr>
                    in (Success (likes p'), db(pid \<mapsto> p')))))"

text \<open>
  \<^verbatim>\<open>DELETE api/posts/comment/:id/:comment_id\<close>. The handler first reads the caller's
  User document and never uses it. Its \<^verbatim>\<open>catch\<close> block answers 500 whatever was
  thrown. \<^verbatim>\<open>Array.prototype.find\<close> is \<^const>\<open>find\<close>.
\<close>

definition delete_comment ::
  "(string \<Rightarrow> bool) \<Rightarrow> posts \<Rightarrow> string \<Rightarrow> string \<Rightarrow> string \<Rightarrow> comment list response \<times> posts" where
  "delete_comment oid db uid pid cid =
     (case findById oid db pid of
        Inl err \<Rightarrow> (ServerError, db)
      | Inr None \<Rightarrow> (not_found, db)
      | Inr (Some p) \<Rightarrow>
          (case find (\<lambda>c. comment_id c = cid) (comments p) of
             None \<Rightarrow> (Failure 404 (msg ''Comment doesn't exists''), db)
           | Some curComment \<Rightarrow>
               if comment_user curComment \<noteq> uid then (Failure 401 (msg ''User not authorized''), db)
               else (let removeIndex = indexOf (map comment_user (comments p)) uid;
                         p' = p\<lparr>comments := splice (comments p) removeIndex 1\<rparr>
                     in (Success (comments p'), db(pid \<mapsto> p')))))"

text \<open>Counting a user's likes, and a run of like requests \<open>(user, post)\<close> in order.\<close>

definition likes_by :: "string \<Rightarrow> like list \<Rightarrow> nat" where
  "likes_by uid ls = length (filter (\<lambda>l. like_user l = uid) ls)"

fun run_likes :: "(string \<Rightarrow> bool) \<Rightarrow> posts \<Rightarrow> (string \<times> string) list \<Rightarrow> posts" where
  "run_likes oid db [] = db"
| "run_likes oid db ((uid, pid) # calls) = run_likes oid (snd (put_like oid db uid pid)) calls"

section \<open>Request validation\<close>

text \<open>
  A body field may be absent. The validators of \<^verbatim>\<open>express-validator\<close> work on the
  field's string form, the empty string for an absent field; \<^verbatim>\<open>exists()\<close> alone asks
  whether the field is there. Of each entry of \<^verbatim>\<open>errors.array()\<close> the model keeps the
  message the source gives the check.
\<close>

definition toString :: "string option \<Rightarrow> string" where
  "toString v = (case v of None \<Rightarrow> [] | Some s \<Rightarrow> s)"

definition errors_body :: "json list \<Rightarrow> json" where
  \<comment> \<open>the object literal \<^verbatim>\<open>{ errors: es }\<close>\<close>
  "errors_body es = JObject [(''errors'', JArray es)]"

text \<open>JavaScript truthiness of a body field: present and not the empty string.\<close>

definition truthy :: "string option \<Rightarrow> bool" where
  "truthy v = (case v of None \<Rightarrow> False | Some s \<Rightarrow> s \<noteq> [])"

section \<open>Registration and sign-in\<close>

record user =
  user_id :: string
  user_name :: string
  user_email :: string
  user_avatar :: string
  user_password :: string

text \<open>
  The library functions the two handlers call: \<^verbatim>\<open>validator.isEmail\<close>,
  \<^verbatim>\<open>gravatar.url\<close> (with the fixed options), \<^verbatim>\<open>bcrypt.hash(password, salt)\<close>,
  \<^verbatim>\<open>bcrypt.compare(password, hash)\<close> and \<^verbatim>\<open>jwt.sign\<close> of the payload
  \<^verbatim>\<open>{ user: { id } }\<close> with the configured secret.
\<close>

record env =
  isEmail :: "string \<Rightarrow> bool"
  gravatar_url :: "string \<Rightarrow> string"
  bcrypt_hash :: "string \<Rightarrow> string \<Rightarrow> string"
  bcrypt_compare :: "string \<Rightarrow> string \<Rightarrow> bool"
  jwt_sign :: "string \<Rightarrow> string"

text \<open>The calls a registration makes to the store and the libraries, in order.\<close>

datatype call =
    FindOne string
  | GravatarUrl string
  | GenSalt
  | Hash string string
  | Save user
  | Sign string

record reg_body =
  reg_name :: "string option"
  reg_email :: "string option"
  reg_password :: "string option"

text \<open>The validation chain of \<^verbatim>\<open>POST api/users\<close>.\<close>

definition check_users :: "env \<Rightarrow> reg_body \<Rightarrow> json list" where
  "check_users e b =
     (if toString (reg_name b) = [] then [msg ''Name is required''] else []) @
     (if isEmail e (toString (reg_email b)) then [] else [msg ''Please include email'']) @
     (if 6 \<le> length (toString (reg_password b)) then []
      else [msg ''Please enter a password with 6 or more characters''])"

definition token_body :: "string \<Rightarrow> json" where
  \<comment> \<open>the object literal \<^verbatim>\<open>{ token }\<close>\<close>
  "token_body t = JObject [(''token'', JString t)]"

text \<open>
  \<^verbatim>\<open>POST api/users\<close>. The User collection is the list of its documents in insertion
  order; \<^verbatim>\<open>User.findOne({ email })\<close> is \<^const>\<open>find\<close>. \<open>newId\<close> is the id the new
  document gets, \<open>salt\<close> what \<^verbatim>\<open>bcrypt.genSalt(10)\<close> returns. The result is the
  response, the collection afterwards and the calls made. A request that passes the chain
  has all three fields (\<^verbatim>\<open>isEmail\<close> of the library rejects the empty string).
\<close>

definition post_users ::
  "env \<Rightarrow> user list \<Rightarrow> string \<Rightarrow> string \<Rightarrow> reg_body \<Rightarrow> json response \<times> user list \<times> call list" where
  "post_users e db newId salt b =
     (let errors = check_users e b
      in if errors \<noteq> [] then (Failure 400 (errors_body errors), db, [])
         else (let name = toString (reg_name b);
                   email = toString (reg_email b);
                   password = toString (reg_password b)
               in case find (\<lambda>u. user_email u = email) db of
                    Some foundUser \<Rightarrow>
                      (Failure 400 (errors_body [msg ''User Already Exists'']), db, [FindOne email])
                  | None \<Rightarrow>
                      (let avatar = gravatar_url e email;
                           hashed = bcrypt_hash e password salt;
                           user = \<lparr>user_id = newId, user_name = name, user_email = email,
                                   user_avatar = avatar, user_password = hashed\<rparr>
                       in (Success (token_body (jwt_sign e newId)), db @ [user],
                           [FindOne email, GravatarUrl email, GenSalt, Hash password salt,
                            Save user, Sign newId]))))"

text \<open>A run of registration requests \<open>(newId, salt, body)\<close> in order.\<close>

fun run_registrations :: "env \<Rightarrow> user list \<Rightarrow> (string \<times> string \<times> reg_body) list \<Rightarrow> user list" where
  "run_registrations e db [] = db"
| "run_registrations e db ((newId, salt, b) # reqs) =
     run_registrations e (fst (snd (post_users e db newId salt b))) reqs"

record auth_body =
  auth_email :: "string option"
  auth_password :: "string option"

text \<open>The validation chain of \<^verbatim>\<open>POST api/auth\<close>.\<close>

definition check_auth :: "env \<Rightarrow> auth_body \<Rightarrow> json list" where
  "check_auth e b =
     (if isEmail e (toString (auth_email b)) then [] else [msg ''Please include email'']) @
     (case auth_password b of None \<Rightarrow> [msg ''Password is required''] | Some pw \<Rightarrow> [])"

text \<open>\<^verbatim>\<open>POST api/auth\<close>; it writes nothing.\<close>

definition post_auth :: "env \<Rightarrow> user list \<Rightarrow> auth_body \<Rightarrow> json response" where
  "post_auth e db b =
     (let errors = check_auth e b
      in if errors \<noteq> [] then Failure 400 (errors_body errors)
         else (let email = toString (auth_email b);
                   password = toString (auth_password b)
               in case find (\<lambda>u. user_email u = email) db of
                    None \<Rightarrow> Failure 400 (JObject [(''errors'', JArray [msg ''Invalid Credentials''])])
                  | Some foundUser \<Rightarrow>
                      (let isMatch = bcrypt_compare e password (user_password foundUser)
                       in if \<not> isMatch
                          then Failure 400 (JObject [(''error'', JArray [msg ''Invalid Credentials''])])
                          else Success (token_body (jwt_sign e (user_id foundUser))))))"

section \<open>Profiles\<close>

record experience_entry =
  exp_id :: string
  exp_title :: string
  exp_company :: string
  exp_from :: string

record education_entry =
  edu_id :: string
  edu_school :: string
  edu_degree :: string
  edu_fieldofstudy :: string
  edu_from :: string

record social_links =
  youtube :: "string option"
  facebook :: "string option"
  twitter :: "string option"
  instagram :: "string option"
  linkedin :: "string option"

record profile =
  profile_user :: string
  company :: "string option"
  website :: "string option"
  location :: "string option"
  status :: "string option"
  bio :: "string option"
  githubusername :: "string option"
  skills :: "string list"
  social :: social_links
  experiences :: "experience_entry list"
  education :: "education_entry list"

text \<open>
  The Profile collection. Every handler addresses a profile by \<^verbatim>\<open>{ user: req.user.id }\<close>
  and a profile is created only where none has that user, so the collection is kept as a
  map from the user id.
\<close>

type_synonym profiles = "string \<rightharpoonup> profile"

record profile_body =
  body_company :: "string option"
  body_website :: "string option"
  body_location :: "string option"
  body_status :: "string option"
  body_skills :: "string option"
  body_bio :: "string option"
  body_githubusername :: "string option"
  body_youtube :: "string option"
  body_twitter :: "string option"
  body_linkedin :: "string option"
  body_instagram :: "string option"
  body_facebook :: "string option"

text \<open>
  The object \<^verbatim>\<open>profileFields\<close>: a key the handler does not assign is absent.
  \<^verbatim>\<open>social\<close> is always assigned, first as the empty object.
\<close>

record profile_fields =
  set_user :: string
  set_company :: "string option"
  set_website :: "string option"
  set_location :: "string option"
  set_status :: "string option"
  set_bio :: "string option"
  set_githubusername :: "string option"
  set_skills :: "string list option"
  set_social :: social_links

text \<open>\<^verbatim>\<open>String.prototype.split(',')\<close> and \<^verbatim>\<open>trim\<close>. A \<^typ>\<open>char\<close> is one of the
  first 256 code points; the white space \<^verbatim>\<open>trim\<close> strips among them is the space, the
  five controls from tab to carriage return, and the no-break space.\<close>

fun split_on :: "char \<Rightarrow> string \<Rightarrow> string list" where
  "split_on c [] = [[]]"
| "split_on c (x # xs) =
     (if x = c then [] # split_on c xs
      else (case split_on c xs of [] \<Rightarrow> [[x]] | w # ws \<Rightarrow> (x # w) # ws))"

definition is_space :: "char \<Rightarrow> bool" where
  "is_space c = (c \<in> set [CHR '' '', CHR 0x09, CHR 0x0A, CHR 0x0B, CHR 0x0C, CHR 0x0D, CHR 0xA0])"

definition trim :: "string \<Rightarrow> string" where
  "trim s = rev (dropWhile is_space (rev (dropWhile is_space s)))"

text \<open>\<^verbatim>\<open>if (v) profileFields.k = v\<close>: the key is assigned only for a truthy value.\<close>

definition supplied :: "string option \<Rightarrow> string option" where
  "supplied v = (if truthy v then v else None)"

definition build_fields :: "string \<Rightarrow> profile_body \<Rightarrow> profile_fields" where
  "build_fields uid b =
     \<lparr>set_user = uid,
      set_company = supplied (body_company b),
      set_website = supplied (body_website b),
      set_location = supplied (body_location b),
      set_status = supplied (body_status b),
      set_bio = supplied (body_bio b),
      set_githubusername = supplied (body_githubusername b),
      set_skills = (if truthy (body_skills b)
                    then Some (map trim (split_on CHR '','' (toString (body_skills b)))) else None),
      set_social = \<lparr>youtube = supplied (body_youtube b),
                     facebook = supplied (body_facebook b),
                     twitter = supplied (body_twitter b),
                     instagram = supplied (body_instagram b),
                     linkedin = supplied (body_linkedin b)\<rparr>\<rparr>"

text \<open>
  The update \<^verbatim>\<open>{ $set: profileFields }\<close>: the operator replaces the value of every key
  of its argument and leaves the document's other keys alone. \<^verbatim>\<open>social\<close> is one key,
  whose value is the object built for this request.
\<close>

definition orElse :: "'a option \<Rightarrow> 'a option \<Rightarrow> 'a option" where
  "orElse new old = (case new of None \<Rightarrow> old | Some v \<Rightarrow> Some v)"

definition set_fields :: "profile_fields \<Rightarrow> profile \<Rightarrow> profile" where
  "set_fields f p =
     p\<lparr>profile_user := set_user f,
       company := orElse (set_company f) (company p),
       website := orElse (set_website f) (website p),
       location := orElse (set_location f) (location p),
       status := orElse (set_status f) (status p),
       bio := orElse (set_bio f) (bio p),
       githubusername := orElse (set_githubusername f) (githubusername p),
       skills := (case set_skills f of None \<Rightarrow> skills p | Some ks \<Rightarrow> ks),
       social := set_social f\<rparr>"

text \<open>\<^verbatim>\<open>new Profile(profileFields)\<close>: the given keys, and empty nested lists.\<close>

definition new_profile :: "profile_fields \<Rightarrow> profile" where
  "new_profile f =
     \<lparr>profile_user = set_user f, company = set_company f, website = set_website f,
      location = set_location f, status = set_status f, bio = set_bio f,
      githubusername = set_githubusername f,
      skills = (case set_skills f of None \<Rightarrow> [] | Some ks \<Rightarrow> ks),
      social = set_social f, experiences = [], education = []\<rparr>"

definition check_profile :: "profile_body \<Rightarrow> json list" where
  "check_profile b =
     (if toString (body_status b) = [] then [msg ''Status is Required''] else []) @
     (if toString (body_skills b) = [] then [msg ''Skills is Required''] else [])"

text \<open>\<^verbatim>\<open>POST api/profile\<close>\<close>

definition post_profile :: "profiles \<Rightarrow> string \<Rightarrow> profile_body \<Rightarrow> profile response \<times> profiles" where
  "post_profile db uid b =
     (let errors = check_profile b
      in if errors \<noteq> [] then (Failure 400 (errors_body errors), db)
         else (let profileFields = build_fields uid b
               in case db uid of
                    Some found \<Rightarrow>
                      (let updated = set_fields profileFields found
                       in (Success updated, db(uid \<mapsto> updated)))
                  | None \<Rightarrow>
                      (let created = new_profile profileFields
                       in (Success created, db(uid \<mapsto> created)))))"

text \<open>
  \<^verbatim>\<open>DELETE api/profile/experience/:experience_id\<close> and
  \<^verbatim>\<open>DELETE api/profile/education/:education_id\<close>. Without a profile the handler reads
  a property of \<^verbatim>\<open>null\<close>, and its \<^verbatim>\<open>catch\<close> block answers 500.
\<close>

definition delete_experience :: "profiles \<Rightarrow> string \<Rightarrow> string \<Rightarrow> profile response \<times> profiles" where
  "delete_experience db uid experience_id =
     (case db uid of
        None \<Rightarrow> (ServerError, db)
      | Some found \<Rightarrow>
          (let removeIndex = indexOf (map exp_id (experiences found)) experience_id;
               saved = found\<lparr>experiences := splice (experiences found) removeIndex 1\<rparr>
           in (Success saved, db(uid \<mapsto> saved))))"

definition delete_education :: "profiles \<Rightarrow> string \<Rightarrow> string \<Rightarrow> profile response \<times> profiles" where
  "delete_education db uid education_id =
     (case db uid of
        None \<Rightarrow> (ServerError, db)
      | Some found \<Rightarrow>
          (let removeIndex = indexOf (map edu_id (education found)) education_id;
               saved = found\<lparr>education := splice (education found) removeIndex 1\<rparr>
           in (Success saved, db(uid \<mapsto> saved))))"

section \<open>A small collection for concrete runs\<close>

definition demo_post :: post where
  "demo_post = \<lparr>post_text = ''hello world'', post_name = ''A'', post_avatar = ''a.png'',
     post_user = ''a'', likes = [\<lparr>like_user = ''b''\<rparr>], comments = []\<rparr>"

definition demo_posts :: posts where
  "demo_posts = [''p1'' \<mapsto> demo_post]"

definition demo_liked :: post where
  "demo_liked = \<lparr>post_text = ''liked by three'', post_name = ''A'', post_avatar = ''a.png'',
     post_user = ''a'',
     likes = [\<lparr>like_user = ''c''\<rparr>, \<lparr>like_user = ''b''\<rparr>, \<lparr>like_user = ''a''\<rparr>],
     comments = []\<rparr>"

definition demo_liked_posts :: posts where
  "demo_liked_posts = [''p3'' \<mapsto> demo_liked]"

definition demo_c1 :: comment where
  "demo_c1 = \<lparr>comment_id = ''c1'', comment_text = ''first'', comment_name = ''A'',
     comment_avatar = ''a.png'', comment_user = ''a''\<rparr>"

definition demo_c2 :: comment where
  "demo_c2 = \<lparr>comment_id = ''c2'', comment_text = ''second'', comment_name = ''A'',
     comment_avatar = ''a.png'', comment_user = ''a''\<rparr>"

definition demo_thread :: post where
  "demo_thread = \<lparr>post_text = ''a thread'', post_name = ''B'', post_avatar = ''b.png'',
     post_user = ''b'', likes = [], comments = [demo_c2, demo_c1]\<rparr>"

definition demo_threads :: posts where
  "demo_threads = [''p2'' \<mapsto> demo_thread]"

text \<open>
  Stand-ins for the libraries in concrete runs: an address is a string with an \<open>@\<close>, a
  hash is the salt followed by the password (the salt two characters long).
\<close>

definition demo_env :: env where
  "demo_env = \<lparr>isEmail = (\<lambda>s. CHR ''@'' \<in> set s),
     gravatar_url = (\<lambda>email. ''//www.gravatar.com/avatar/'' @ email),
     bcrypt_hash = (\<lambda>password salt. salt @ password),
     bcrypt_compare = (\<lambda>password hashed. drop 2 hashed = password),
     jwt_sign = (\<lambda>i. ''jwt.'' @ i)\<rparr>"

definition demo_user :: user where
  "demo_user = \<lparr>user_id = ''u1'', user_name = ''A'', user_email = ''a@x.com'',
     user_avatar = ''//www.gravatar.com/avatar/a@x.com'', user_password = ''s1pw123456''\<rparr>"

definition demo_registration :: reg_body where
  "demo_registration = \<lparr>reg_name = Some ''A'', reg_email = Some ''a@x.com'',
     reg_password = Some ''pw123456''\<rparr>"

definition demo_e1 :: experience_entry where
  "demo_e1 = \<lparr>exp_id = ''e1'', exp_title = ''Engineer'', exp_company = ''Acme'', exp_from = ''2018''\<rparr>"

definition demo_e2 :: experience_entry where
  "demo_e2 = \<lparr>exp_id = ''e2'', exp_title = ''Lead'', exp_company = ''Initech'', exp_from = ''2020''\<rparr>"

definition demo_d1 :: education_entry where
  "demo_d1 = \<lparr>edu_id = ''d1'', edu_school = ''MIT'', edu_degree = ''BSc'',
     edu_fieldofstudy = ''CS'', edu_from = ''2014''\<rparr>"

definition demo_profile :: profile where
  "demo_profile = \<lparr>profile_user = ''a'', company = Some ''Acme'', website = None, location = None,
     status = Some ''Developer'', bio = None, githubusername = None, skills = [''go''],
     social = \<lparr>youtube = Some ''https://youtube.com/a'', facebook = None, twitter = None,
                instagram = None, linkedin = None\<rparr>,
     experiences = [demo_e2, demo_e1], education = [demo_d1]\<rparr>"

definition demo_profiles :: profiles where
  "demo_profiles = [''a'' \<mapsto> demo_profile]"

definition demo_update :: profile_body where
  "demo_update = \<lparr>body_company = None, body_website = None, body_location = None,
     body_status = Some ''Developer'', body_skills = Some ''go, rust, c++'', body_bio = None,
     body_githubusername = None, body_youtube = None, body_twitter = Some ''https://twitter.com/a'',
     body_linkedin = None, body_instagram = None, body_facebook = None\<rparr>"

definition demo_updated :: profile where
  "demo_updated = \<lparr>profile_user = ''a'', company = Some ''Acme'', website = None, location = None,
     status = Some ''Developer'', bio = None, githubusername = None,
     skills = [''go'', ''rust'', ''c++''],
     social = \<lparr>youtube = None, facebook = None, twitter = Some ''https://twitter.com/a'',
                instagram = None, linkedin = None\<rparr>,
     experiences = [demo_e2, demo_e1], education = [demo_d1]\<rparr>"

section \<open>Facts about the array operations\<close>

lemma indexOf_neg_iff: "indexOf xs x < 0 \<longleftrightarrow> x \<notin> set xs"
  by (induction xs) (auto simp: Let_def)

lemma indexOf_range: "x \<in> set xs \<Longrightarrow> 0 \<le> indexOf xs x \<and> indexOf xs x < int (length xs)"
  by (induction xs) (auto simp: Let_def)

lemma indexOf_nth: "x \<in> set xs \<Longrightarrow> xs ! nat (indexOf xs x) = x"
proof (induction xs)
  case Nil
  then show ?case by simp
next
  case (Cons y ys)
  show ?case
  proof (cases "y = x")
    case True
    then show ?thesis by simp
  next
    case False
    with Cons.prems have mem: "x \<in> set ys" by simp
    then have "\<not> indexOf ys x < 0" by (simp add: indexOf_neg_iff)
    with False Cons.IH [OF mem] show ?thesis
      by (simp add: Let_def nat_add_distrib)
  qed
qed

lemma indexOf_absent: "x \<notin> set xs \<Longrightarrow> indexOf xs x = - 1"
  by (induction xs) (auto simp: Let_def)

lemma splice_in_range:
  "0 \<le> i \<Longrightarrow> i < int (length xs) \<Longrightarrow> splice xs i 1 = take (nat i) xs @ drop (Suc (nat i)) xs"
  by (simp add: splice_def Let_def min_def)

lemma splice_minus_one: "splice xs (- 1) 1 = butlast xs"
proof (cases "xs = []")
  case True
  then show ?thesis by (simp add: splice_def)
next
  case False
  then have "nat (int (length xs) - 1) = length xs - 1" by simp
  moreover from False have "max (int (length xs) - 1) 0 = int (length xs) - 1"
    by (cases xs) simp_all
  ultimately show ?thesis using False
    by (simp add: splice_def Let_def butlast_conv_take)
qed

section \<open>Likes\<close>

lemma likes_by_mem: "0 < likes_by uid ls \<longleftrightarrow> uid \<in> set (map like_user ls)"
  by (induction ls) (auto simp: likes_by_def)

lemma put_like_keeps_bound:
  assumes "db pid = Some p" and "likes_by uid (likes p) \<le> 1"
  shows "\<exists>p'. snd (put_like oid db v q) pid = Some p' \<and> likes_by uid (likes p') \<le> 1"
proof (cases "q = pid \<and> oid pid \<and> likes_by v (likes p) = 0")
  case False
  with assms have "snd (put_like oid db v q) pid = Some p"
    by (auto simp: put_like_def findById_def likes_by_def Let_def split: option.splits)
  with assms show ?thesis by simp
next
  case True
  let ?p' = "p\<lparr>likes := \<lparr>like_user = v\<rparr> # likes p\<rparr>"
  from True assms have upd: "snd (put_like oid db v q) pid = Some ?p'"
    by (simp add: put_like_def findById_def likes_by_def Let_def)
  from True assms have "likes_by uid (likes ?p') \<le> 1"
    by (cases "v = uid") (simp_all add: likes_by_def)
  with upd show ?thesis by blast
qed

lemma run_likes_keeps_bound:
  "db pid = Some p \<Longrightarrow> likes_by uid (likes p) \<le> 1 \<Longrightarrow>
   \<exists>p'. run_likes oid db calls pid = Some p' \<and> likes_by uid (likes p') \<le> 1"
proof (induction calls arbitrary: db p)
  case Nil
  then show ?case by simp
next
  case (Cons c calls)
  obtain v q where c: "c = (v, q)" by (cases c)
  from put_like_keeps_bound [where db = db and pid = pid and oid = oid and v = v and q = q, OF Cons.prems]
  obtain p' where "snd (put_like oid db v q) pid = Some p'" and "likes_by uid (likes p') \<le> 1"
    by blast
  from Cons.IH [where db = "snd (put_like oid db v q)", OF this] c show ?case by simp
qed

lemma put_like_conflict:
  "db pid = Some p \<Longrightarrow> oid pid \<Longrightarrow> 0 < likes_by uid (likes p) \<Longrightarrow>
   put_like oid db uid pid = (Failure 400 (msg ''Post already liked''), db)"
  by (simp add: put_like_def findById_def likes_by_def Let_def)

lemma put_like_fresh:
  "db pid = Some p \<Longrightarrow> oid pid \<Longrightarrow> likes_by uid (likes p) = 0 \<Longrightarrow>
   put_like oid db uid pid =
     (Success (\<lparr>like_user = uid\<rparr> # likes p), db(pid \<mapsto> p\<lparr>likes := \<lparr>like_user = uid\<rparr> # likes p\<rparr>))"
  by (simp add: put_like_def findById_def likes_by_def Let_def)

lemma put_unlike_conflict:
  "db pid = Some p \<Longrightarrow> oid pid \<Longrightarrow> likes_by uid (likes p) = 0 \<Longrightarrow>
   put_unlike oid db uid pid = (Failure 400 (msg ''Post has not yet been liked''), db)"
  by (simp add: put_unlike_def findById_def likes_by_def Let_def)

lemma put_unlike_removes:
  "db pid = Some p \<Longrightarrow> oid pid \<Longrightarrow> 0 < likes_by uid (likes p) \<Longrightarrow>
   put_unlike oid db uid pid =
     (Success (splice (likes p) (indexOf (map like_user (likes p)) uid) 1),
      db(pid \<mapsto> p\<lparr>likes := splice (likes p) (indexOf (map like_user (likes p)) uid) 1\<rparr>))"
  by (simp add: put_unlike_def findById_def likes_by_def Let_def)

text \<open>
  C3. A post whose Likes list holds at most one Like of a user (a new post holds none)
  still holds at most one after any run of like requests, by whichever users and on
  whichever posts; and where the user already has a Like on the post, a further like
  request is answered 400 "Post already liked" and leaves the collection, so the Likes
  list and its length, as it was.
\<close>

theorem like_at_most_once:
  assumes "db pid = Some p"
  shows "(likes_by uid (likes p) \<le> 1 \<longrightarrow>
            (\<exists>p'. run_likes oid db calls pid = Some p' \<and> likes_by uid (likes p') \<le> 1)) \<and>
         (oid pid \<and> 0 < likes_by uid (likes p) \<longrightarrow>
            put_like oid db uid pid = (Failure 400 (msg ''Post already liked''), db) \<and>
            (\<exists>p'. snd (put_like oid db uid pid) pid = Some p' \<and>
                   length (likes p') = length (likes p)))"
  using assms
    run_likes_keeps_bound [where db = db and pid = pid and uid = uid and oid = oid and calls = calls]
    put_like_conflict [where db = db and pid = pid and uid = uid and oid = oid]
  by simp

theorem like_at_most_once_witness:
  "(\<exists>p'. run_likes (\<lambda>i. True) demo_posts
            [(''b'', ''p1''), (''c'', ''p1''), (''b'', ''p1''), (''c'', ''p2'')] ''p1'' = Some p' \<and>
         likes_by ''b'' (likes p') \<le> 1) \<and>
   put_like (\<lambda>i. True) demo_posts ''b'' ''p1'' = (Failure 400 (msg ''Post already liked''), demo_posts)"
proof -
  have stored: "demo_posts ''p1'' = Some demo_post" by (simp add: demo_posts_def)
  have bound: "likes_by ''b'' (likes demo_post) \<le> 1" by (simp add: likes_by_def demo_post_def)
  have liked: "0 < likes_by ''b'' (likes demo_post)" by (simp add: likes_by_def demo_post_def)
  from like_at_most_once [where oid = "\<lambda>i. True" and uid = "''b''" and db = demo_posts and
      pid = "''p1''" and p = demo_post and calls = "[(''b'', ''p1''), (''c'', ''p1''), (''b'', ''p1''), (''c'', ''p2'')]", OF stored]
    bound liked
  show ?thesis by blast
qed

text \<open>
  C4. For a post on which the user has no Like, an unlike request is answered 400
  "Post has not yet been liked" and leaves the collection as it was; a like request
  puts the user's Like at the head of the list, and the unlike request after it answers
  with the Likes list as it was before and leaves the collection as it was before.
\<close>

theorem like_unlike_round_trip:
  assumes "db pid = Some p" and "oid pid" and "likes_by uid (likes p) = 0"
  shows "put_unlike oid db uid pid = (Failure 400 (msg ''Post has not yet been liked''), db) \<and>
         put_like oid db uid pid =
           (Success (\<lparr>like_user = uid\<rparr> # likes p),
            db(pid \<mapsto> p\<lparr>likes := \<lparr>like_user = uid\<rparr> # likes p\<rparr>)) \<and>
         put_unlike oid (snd (put_like oid db uid pid)) uid pid = (Success (likes p), db)"
proof -
  let ?p' = "p\<lparr>likes := \<lparr>like_user = uid\<rparr> # likes p\<rparr>"
  let ?db' = "db(pid \<mapsto> ?p')"
  have liked: "put_like oid db uid pid = (Success (\<lparr>like_user = uid\<rparr> # likes p), ?db')"
    using assms by (rule put_like_fresh)
  have stored: "?db' pid = Some ?p'" by simp
  have present: "0 < likes_by uid (likes ?p')" by (simp add: likes_by_def)
  have "put_unlike oid ?db' uid pid =
      (Success (splice (likes ?p') (indexOf (map like_user (likes ?p')) uid) 1),
       ?db'(pid \<mapsto> ?p'\<lparr>likes := splice (likes ?p') (indexOf (map like_user (likes ?p')) uid) 1\<rparr>))"
    by (rule put_unlike_removes [where db = ?db' and p = ?p' and pid = pid and oid = oid and uid = uid,
          OF stored assms(2) present])
  moreover have "splice (likes ?p') (indexOf (map like_user (likes ?p')) uid) 1 = likes p"
    by (simp add: splice_def)
  moreover have "?db'(pid \<mapsto> p) = db"
    using assms(1) by (simp add: map_upd_triv)
  ultimately have "put_unlike oid ?db' uid pid = (Success (likes p), db)"
    by simp
  with liked put_unlike_conflict [where db = db and pid = pid and p = p and oid = oid, OF assms]
  show ?thesis by simp
qed

theorem like_unlike_round_trip_witness:
  "put_unlike (\<lambda>i. True) demo_posts ''c'' ''p1'' =
     (Failure 400 (msg ''Post has not yet been liked''), demo_posts) \<and>
   put_unlike (\<lambda>i. True) (snd (put_like (\<lambda>i. True) demo_posts ''c'' ''p1'')) ''c'' ''p1'' =
     (Success (likes demo_post), demo_posts)"
proof -
  have stored: "demo_posts ''p1'' = Some demo_post" by (simp add: demo_posts_def)
  have fresh: "likes_by ''c'' (likes demo_post) = 0" by (simp add: likes_by_def demo_post_def)
  from like_unlike_round_trip [where oid = "\<lambda>i. True" and uid = "''c''" and db = demo_posts and
      pid = "''p1''" and p = demo_post, OF stored _ fresh]
  show ?thesis by blast
qed

text \<open>
  C9. In the unlike handler, once the guard has let the request through (the caller has a
  Like on the post), the removal index is a position of the list, the Like at that position
  is the caller's, and the splice takes out that one element: the list is one shorter, the
  caller has one Like fewer, and the Likes of every other user are as they were, in order.
\<close>

theorem unlike_index_is_callers_like:
  assumes "db pid = Some p" and "oid pid" and "0 < likes_by uid (likes p)"
  defines "i \<equiv> indexOf (map like_user (likes p)) uid"
  defines "rest \<equiv> take (nat i) (likes p) @ drop (Suc (nat i)) (likes p)"
  shows "0 \<le> i \<and> i < int (length (likes p)) \<and> like_user (likes p ! nat i) = uid \<and>
         put_unlike oid db uid pid = (Success rest, db(pid \<mapsto> p\<lparr>likes := rest\<rparr>)) \<and>
         length rest = length (likes p) - 1 \<and>
         likes_by uid rest = likes_by uid (likes p) - 1 \<and>
         filter (\<lambda>l. like_user l \<noteq> uid) rest = filter (\<lambda>l. like_user l \<noteq> uid) (likes p)"
proof -
  let ?ls = "likes p"
  from assms(3) have mem: "uid \<in> set (map like_user ?ls)" by (simp add: likes_by_mem)
  from indexOf_range [OF mem] have lo: "0 \<le> i" and hi: "i < int (length ?ls)"
    by (simp_all add: i_def)
  then have n: "nat i < length ?ls" by simp
  from indexOf_nth [OF mem] n have own: "like_user (?ls ! nat i) = uid"
    by (simp add: i_def)
  have sp: "splice ?ls i 1 = rest"
    unfolding rest_def using lo hi by (rule splice_in_range)
  have handler: "put_unlike oid db uid pid = (Success rest, db(pid \<mapsto> p\<lparr>likes := rest\<rparr>))"
    using put_unlike_removes [where db = db and pid = pid and p = p and oid = oid and uid = uid,
        OF assms(1-3)] sp
    by (simp add: i_def)
  have split: "?ls = take (nat i) ?ls @ (?ls ! nat i) # drop (Suc (nat i)) ?ls"
    using n by (rule id_take_nth_drop)
  have len: "length rest = length ?ls - 1"
    using n by (simp add: rest_def)
  have "likes_by uid ?ls = Suc (likes_by uid rest)"
    by (subst split) (simp add: likes_by_def rest_def own)
  then have cnt: "likes_by uid rest = likes_by uid ?ls - 1" by simp
  have others: "filter (\<lambda>l. like_user l \<noteq> uid) rest = filter (\<lambda>l. like_user l \<noteq> uid) ?ls"
    by (subst split) (simp add: rest_def own)
  from lo hi own handler len cnt others show ?thesis by simp
qed

theorem unlike_index_is_callers_like_witness:
  "indexOf (map like_user (likes demo_liked)) ''b'' = 1 \<and>
   like_user (likes demo_liked ! 1) = ''b'' \<and>
   put_unlike (\<lambda>i. True) demo_liked_posts ''b'' ''p3'' =
     (Success [\<lparr>like_user = ''c''\<rparr>, \<lparr>like_user = ''a''\<rparr>],
      demo_liked_posts(''p3'' \<mapsto>
        demo_liked\<lparr>likes := [\<lparr>like_user = ''c''\<rparr>, \<lparr>like_user = ''a''\<rparr>]\<rparr>)) \<and>
   filter (\<lambda>l. like_user l \<noteq> ''b'') [\<lparr>like_user = ''c''\<rparr>, \<lparr>like_user = ''a''\<rparr>] =
     filter (\<lambda>l. like_user l \<noteq> ''b'') (likes demo_liked)"
proof -
  have stored: "demo_liked_posts ''p3'' = Some demo_liked" by (simp add: demo_liked_posts_def)
  have liked: "0 < likes_by ''b'' (likes demo_liked)" by (simp add: likes_by_def demo_liked_def)
  have here: "indexOf (map like_user (likes demo_liked)) ''b'' = 1" by (simp add: demo_liked_def)
  have ls: "likes demo_liked = [\<lparr>like_user = ''c''\<rparr>, \<lparr>like_user = ''b''\<rparr>, \<lparr>like_user = ''a''\<rparr>]"
    by (simp add: demo_liked_def)
  from unlike_index_is_callers_like [where oid = "\<lambda>i. True" and uid = "''b''" and db = demo_liked_posts and
      pid = "''p3''" and p = demo_liked, OF stored _ liked]
  show ?thesis by (simp add: here ls)
qed

section \<open>Deleting a post\<close>

text \<open>
  C8. For a stored post, a delete request by anyone but its author is answered 401
  "User not authorised" and leaves the collection as it was, so the post is still
  returned by the get handler; a delete request by the author is answered "Post Removed",
  takes the post (and no other) out of the collection, and the get handler then answers
  404 "Post Not Found" for its id.
\<close>

theorem delete_post_owner_only:
  assumes "db pid = Some p" and "oid pid"
  shows "(post_user p \<noteq> uid \<longrightarrow>
            delete_post oid db uid pid = (Failure 401 (msg ''User not authorised''), db) \<and>
            get_post oid (snd (delete_post oid db uid pid)) pid = Success p) \<and>
         (post_user p = uid \<longrightarrow>
            delete_post oid db uid pid = (Success (msg ''Post Removed''), db(pid := None)) \<and>
            get_post oid (snd (delete_post oid db uid pid)) pid = Failure 404 (msg ''Post Not Found''))"
  using assms by (simp add: delete_post_def get_post_def findById_def not_found_def)

theorem delete_post_owner_only_witness:
  "delete_post (\<lambda>i. True) demo_posts ''b'' ''p1'' = (Failure 401 (msg ''User not authorised''), demo_posts) \<and>
   get_post (\<lambda>i. True) (snd (delete_post (\<lambda>i. True) demo_posts ''b'' ''p1'')) ''p1'' = Success demo_post \<and>
   delete_post (\<lambda>i. True) demo_posts ''a'' ''p1'' = (Success (msg ''Post Removed''), demo_posts(''p1'' := None)) \<and>
   get_post (\<lambda>i. True) (snd (delete_post (\<lambda>i. True) demo_posts ''a'' ''p1'')) ''p1'' =
     Failure 404 (msg ''Post Not Found'')"
proof -
  have stored: "demo_posts ''p1'' = Some demo_post" by (simp add: demo_posts_def)
  have author: "post_user demo_post = ''a''" by (simp add: demo_post_def)
  have other: "post_user demo_post \<noteq> ''b''" by (simp add: demo_post_def)
  from delete_post_owner_only [where oid = "\<lambda>i. True" and uid = "''b''" and db = demo_posts and
      pid = "''p1''" and p = demo_post, OF stored] other
    delete_post_owner_only [where oid = "\<lambda>i. True" and uid = "''a''" and db = demo_posts and
      pid = "''p1''" and p = demo_post, OF stored] author
  show ?thesis by blast
qed

section \<open>Deleting a comment\<close>

lemma delete_comment_absent:
  "db pid = Some p \<Longrightarrow> oid pid \<Longrightarrow> find (\<lambda>c. comment_id c = cid) (comments p) = None \<Longrightarrow>
   delete_comment oid db uid pid cid = (Failure 404 (msg ''Comment doesn't exists''), db)"
  by (simp add: delete_comment_def findById_def)

lemma delete_comment_forbidden:
  "db pid = Some p \<Longrightarrow> oid pid \<Longrightarrow> find (\<lambda>c. comment_id c = cid) (comments p) = Some c \<Longrightarrow>
   comment_user c \<noteq> uid \<Longrightarrow>
   delete_comment oid db uid pid cid = (Failure 401 (msg ''User not authorized''), db)"
  by (simp add: delete_comment_def findById_def)

lemma delete_comment_removes_callers_first:
  "db pid = Some p \<Longrightarrow> oid pid \<Longrightarrow> find (\<lambda>c. comment_id c = cid) (comments p) = Some c \<Longrightarrow>
   comment_user c = uid \<Longrightarrow>
   delete_comment oid db uid pid cid =
     (Success (splice (comments p) (indexOf (map comment_user (comments p)) uid) 1),
      db(pid \<mapsto> p\<lparr>comments := splice (comments p) (indexOf (map comment_user (comments p)) uid) 1\<rparr>))"
  by (simp add: delete_comment_def findById_def Let_def)

text \<open>
  C1. The handler finds the comment by its id and checks its author, but then takes the
  removal index from the first comment of the caller. On a post whose comments are
  \<open>c2\<close>, \<open>c1\<close>, both by the caller, the request to delete \<open>c1\<close> removes \<open>c2\<close>: the
  comment with the requested id is the one left.
\<close>

theorem delete_comment_removes_other_comment:
  "comment_id demo_c1 = ''c1'' \<and>
   comments demo_thread = [demo_c2, demo_c1] \<and>
   delete_comment (\<lambda>i. True) demo_threads ''a'' ''p2'' ''c1'' =
     (Success [demo_c1], demo_threads(''p2'' \<mapsto> demo_thread\<lparr>comments := [demo_c1]\<rparr>))"
  by (simp add: delete_comment_def findById_def demo_threads_def demo_thread_def demo_c1_def
      demo_c2_def splice_def Let_def)

section \<open>Removing an experience or education entry\<close>

lemma delete_experience_present:
  assumes "db uid = Some p" and "experience_id \<in> set (map exp_id (experiences p))"
  defines "i \<equiv> nat (indexOf (map exp_id (experiences p)) experience_id)"
  shows "i < length (experiences p) \<and> exp_id (experiences p ! i) = experience_id \<and>
         fst (delete_experience db uid experience_id) =
           Success (p\<lparr>experiences := take i (experiences p) @ drop (Suc i) (experiences p)\<rparr>)"
proof -
  let ?ids = "map exp_id (experiences p)"
  from indexOf_range [OF assms(2)]
  have lo: "0 \<le> indexOf ?ids experience_id" and hi: "indexOf ?ids experience_id < int (length (experiences p))"
    by simp_all
  then have n: "i < length (experiences p)" by (simp add: i_def)
  from indexOf_nth [OF assms(2)] n have "exp_id (experiences p ! i) = experience_id"
    by (simp add: i_def)
  moreover from splice_in_range [OF lo hi]
  have "splice (experiences p) (indexOf ?ids experience_id) 1 =
      take i (experiences p) @ drop (Suc i) (experiences p)"
    by (simp add: i_def)
  then have "fst (delete_experience db uid experience_id) =
      Success (p\<lparr>experiences := take i (experiences p) @ drop (Suc i) (experiences p)\<rparr>)"
    using assms(1) by (simp add: delete_experience_def Let_def)
  ultimately show ?thesis using n by simp
qed

lemma delete_experience_absent:
  assumes "db uid = Some p" and "experience_id \<notin> set (map exp_id (experiences p))"
  shows "fst (delete_experience db uid experience_id) = Success (p\<lparr>experiences := butlast (experiences p)\<rparr>)"
proof -
  from assms(2) have "indexOf (map exp_id (experiences p)) experience_id = - 1"
    by (rule indexOf_absent)
  with assms(1) show ?thesis
    using splice_minus_one [of "experiences p"]
    by (simp add: delete_experience_def Let_def)
qed

lemma delete_education_absent:
  assumes "db uid = Some p" and "education_id \<notin> set (map edu_id (education p))"
  shows "fst (delete_education db uid education_id) = Success (p\<lparr>education := butlast (education p)\<rparr>)"
proof -
  from assms(2) have "indexOf (map edu_id (education p)) education_id = - 1"
    by (rule indexOf_absent)
  with assms(1) show ?thesis
    using splice_minus_one [of "education p"]
    by (simp add: delete_education_def Let_def)
qed

text \<open>
  C2. With an id that no entry has, \<^verbatim>\<open>indexOf\<close> gives \<open>-1\<close> and \<^verbatim>\<open>splice(-1, 1)\<close>
  removes the last entry of the list. On a profile with the experiences \<open>e2\<close>, \<open>e1\<close> and
  the education \<open>d1\<close>, removing the experience \<open>nope\<close> leaves \<open>e2\<close> alone and removing
  the education \<open>nope\<close> leaves nothing.
\<close>

theorem delete_entry_not_found_removes_last:
  "indexOf (map exp_id (experiences demo_profile)) ''nope'' = - 1 \<and>
   delete_experience demo_profiles ''a'' ''nope'' =
     (Success (demo_profile\<lparr>experiences := [demo_e2]\<rparr>),
      demo_profiles(''a'' \<mapsto> demo_profile\<lparr>experiences := [demo_e2]\<rparr>)) \<and>
   indexOf (map edu_id (education demo_profile)) ''nope'' = - 1 \<and>
   delete_education demo_profiles ''a'' ''nope'' =
     (Success (demo_profile\<lparr>education := []\<rparr>),
      demo_profiles(''a'' \<mapsto> demo_profile\<lparr>education := []\<rparr>))"
  by (simp add: delete_experience_def delete_education_def demo_profiles_def demo_profile_def
      demo_e1_def demo_e2_def demo_d1_def splice_def Let_def)

section \<open>Registration\<close>

lemma post_users_invalid:
  "check_users e b \<noteq> [] \<Longrightarrow>
   post_users e db newId salt b = (Failure 400 (errors_body (check_users e b)), db, [])"
  by (simp add: post_users_def Let_def)

lemma post_users_taken:
  "check_users e b = [] \<Longrightarrow> toString (reg_email b) \<in> user_email ` set db \<Longrightarrow>
   post_users e db newId salt b =
     (Failure 400 (errors_body [msg ''User Already Exists'']), db, [FindOne (toString (reg_email b))])"
proof -
  assume valid: "check_users e b = []" and taken: "toString (reg_email b) \<in> user_email ` set db"
  from taken have "find (\<lambda>u. user_email u = toString (reg_email b)) db \<noteq> None"
    by (auto simp: find_None_iff)
  then obtain u where "find (\<lambda>u. user_email u = toString (reg_email b)) db = Some u"
    by blast
  with valid show ?thesis by (simp add: post_users_def Let_def)
qed

lemma post_users_success:
  assumes "post_users e db newId salt b = (Success t, db', calls)"
  shows "check_users e b = [] \<and> toString (reg_email b) \<notin> user_email ` set db \<and>
         toString (reg_email b) \<in> user_email ` set db'"
proof -
  from assms have valid: "check_users e b = []"
    by (auto simp: post_users_def Let_def split: if_splits)
  with assms have free: "find (\<lambda>u. user_email u = toString (reg_email b)) db = None"
    by (auto simp: post_users_def Let_def split: option.splits)
  then have "toString (reg_email b) \<notin> user_email ` set db"
    by (auto simp: find_None_iff)
  moreover from assms valid free have "toString (reg_email b) \<in> user_email ` set db'"
    by (auto simp: post_users_def Let_def)
  ultimately show ?thesis using valid by simp
qed

lemma post_users_keeps: "set db \<subseteq> set (fst (snd (post_users e db newId salt b)))"
  by (auto simp: post_users_def Let_def split: option.splits)

lemma run_registrations_keeps: "set db \<subseteq> set (run_registrations e db reqs)"
proof (induction reqs arbitrary: db)
  case Nil
  then show ?case by simp
next
  case (Cons r reqs)
  obtain newId salt b where r: "r = (newId, salt, b)" by (cases r)
  have "set db \<subseteq> set (fst (snd (post_users e db newId salt b)))"
    by (rule post_users_keeps)
  also have "\<dots> \<subseteq> set (run_registrations e (fst (snd (post_users e db newId salt b))) reqs)"
    by (rule Cons.IH)
  finally show ?case by (simp add: r)
qed

text \<open>
  C7, as the handler has it. After a registration that succeeded, and after any further
  run of registration requests, a request with the same email never adds a User: one that
  passes the validation chain is answered 400 "User Already Exists" after the one lookup,
  one that does not pass it is answered 400 with the chain's messages before any lookup.
\<close>

theorem second_registration_rejected:
  assumes "post_users e db id1 salt1 b1 = (Success t, db1, calls1)"
      and "toString (reg_email b2) = toString (reg_email b1)"
  shows "post_users e (run_registrations e db1 reqs) id2 salt2 b2 =
           (if check_users e b2 = []
            then (Failure 400 (errors_body [msg ''User Already Exists'']),
                  run_registrations e db1 reqs, [FindOne (toString (reg_email b2))])
            else (Failure 400 (errors_body (check_users e b2)), run_registrations e db1 reqs, []))"
proof (cases "check_users e b2 = []")
  case False
  then show ?thesis by (simp add: post_users_invalid)
next
  case True
  from post_users_success [OF assms(1)] have "toString (reg_email b1) \<in> user_email ` set db1"
    by simp
  with run_registrations_keeps [of db1 e reqs] assms(2)
  have "toString (reg_email b2) \<in> user_email ` set (run_registrations e db1 reqs)"
    by auto
  with True show ?thesis by (simp add: post_users_taken)
qed

lemma demo_registration_succeeds:
  "post_users demo_env [] ''u1'' ''s1'' demo_registration =
     (Success (token_body ''jwt.u1''), [demo_user],
      [FindOne ''a@x.com'', GravatarUrl ''a@x.com'', GenSalt, Hash ''pw123456'' ''s1'',
       Save demo_user, Sign ''u1''])"
  by (simp add: post_users_def check_users_def toString_def demo_env_def demo_registration_def
      demo_user_def token_body_def Let_def)

theorem second_registration_rejected_witness:
  "post_users demo_env (run_registrations demo_env [demo_user] [(''u2'', ''s2'', demo_registration)])
     ''u3'' ''s3'' demo_registration =
   (Failure 400 (errors_body [msg ''User Already Exists'']),
    run_registrations demo_env [demo_user] [(''u2'', ''s2'', demo_registration)],
    [FindOne ''a@x.com''])"
proof -
  have valid: "check_users demo_env demo_registration = []"
    by (simp add: check_users_def toString_def demo_env_def demo_registration_def)
  have email: "toString (reg_email demo_registration) = ''a@x.com''"
    by (simp add: toString_def demo_registration_def)
  from second_registration_rejected [OF demo_registration_succeeds refl,
      of "[(''u2'', ''s2'', demo_registration)]" "''u3''" "''s3''"] valid email
  show ?thesis by simp
qed

text \<open>
  The claim as the specification words it fails where the later request does not pass the
  validation chain: after the registration of \<open>a@x.com\<close>, a request with the same email
  and no name is answered with the chain's message, not with "User Already Exists".
\<close>

theorem second_registration_invalid_counterexample:
  "fst (post_users demo_env [] ''u1'' ''s1'' demo_registration) = Success (token_body ''jwt.u1'') \<and>
   fst (snd (post_users demo_env [] ''u1'' ''s1'' demo_registration)) = [demo_user] \<and>
   reg_email (demo_registration\<lparr>reg_name := None\<rparr>) = reg_email demo_registration \<and>
   post_users demo_env [demo_user] ''u2'' ''s2'' (demo_registration\<lparr>reg_name := None\<rparr>) =
     (Failure 400 (errors_body [msg ''Name is required'']), [demo_user], []) \<and>
   fst (post_users demo_env [demo_user] ''u2'' ''s2'' (demo_registration\<lparr>reg_name := None\<rparr>)) \<noteq>
     Failure 400 (errors_body [msg ''User Already Exists''])"
  by (simp add: demo_registration_succeeds)
    (simp add: post_users_def check_users_def toString_def demo_env_def demo_registration_def
      errors_body_def msg_def Let_def)

text \<open>
  C10. A registration request whose password has fewer than six characters (an absent
  password has none) is answered 400 with the validation messages, that of the password
  check among them; the User collection is as it was and no call was made: no lookup, no
  salt, no hash, no save, no token.
\<close>

theorem short_password_rejected:
  assumes "length (toString (reg_password b)) < 6"
  shows "post_users e db newId salt b = (Failure 400 (errors_body (check_users e b)), db, []) \<and>
         msg ''Please enter a password with 6 or more characters'' \<in> set (check_users e b)"
proof -
  from assms have listed: "msg ''Please enter a password with 6 or more characters'' \<in> set (check_users e b)"
    by (simp add: check_users_def)
  then have "check_users e b \<noteq> []" by auto
  then have "post_users e db newId salt b = (Failure 400 (errors_body (check_users e b)), db, [])"
    by (rule post_users_invalid)
  with listed show ?thesis by simp
qed

theorem short_password_rejected_witness:
  "post_users demo_env [] ''u1'' ''s1'' (demo_registration\<lparr>reg_password := Some ''pw123''\<rparr>) =
     (Failure 400 (errors_body [msg ''Please enter a password with 6 or more characters'']), [], [])"
proof -
  have short: "length (toString (reg_password (demo_registration\<lparr>reg_password := Some ''pw123''\<rparr>))) < 6"
    by (simp add: toString_def)
  have chain: "check_users demo_env (demo_registration\<lparr>reg_password := Some ''pw123''\<rparr>) =
      [msg ''Please enter a password with 6 or more characters'']"
    by (simp add: check_users_def toString_def demo_env_def demo_registration_def)
  from short_password_rejected [OF short, of demo_env "[]" "''u1''" "''s1''"] chain
  show ?thesis by simp
qed

section \<open>Sign-in\<close>

lemma post_auth_no_account:
  "check_auth e b = [] \<Longrightarrow> toString (auth_email b) \<notin> user_email ` set db \<Longrightarrow>
   post_auth e db b = Failure 400 (JObject [(''errors'', JArray [msg ''Invalid Credentials''])])"
proof -
  assume valid: "check_auth e b = []" and free: "toString (auth_email b) \<notin> user_email ` set db"
  from free have "find (\<lambda>u. user_email u = toString (auth_email b)) db = None"
    by (force simp: find_None_iff)
  with valid show ?thesis by (simp add: post_auth_def Let_def)
qed

lemma post_auth_wrong_password:
  "check_auth e b = [] \<Longrightarrow> find (\<lambda>u. user_email u = toString (auth_email b)) db = Some u \<Longrightarrow>
   \<not> bcrypt_compare e (toString (auth_password b)) (user_password u) \<Longrightarrow>
   post_auth e db b = Failure 400 (JObject [(''error'', JArray [msg ''Invalid Credentials''])])"
  by (simp add: post_auth_def Let_def)

text \<open>
  C5. The two failures of the sign-in handler have the same status and the same message
  but not the same body: without an account the message list is under the key
  \<open>errors\<close>, with a wrong password it is under the key \<open>error\<close>. With the one account
  \<open>a@x.com\<close> registered, a request for \<open>b@x.com\<close> and a request for \<open>a@x.com\<close>
  with a wrong password get different responses.
\<close>

theorem sign_in_failures_differ:
  "post_auth demo_env [demo_user] \<lparr>auth_email = Some ''b@x.com'', auth_password = Some ''wrong''\<rparr> =
     Failure 400 (JObject [(''errors'', JArray [msg ''Invalid Credentials''])]) \<and>
   post_auth demo_env [demo_user] \<lparr>auth_email = Some ''a@x.com'', auth_password = Some ''wrong''\<rparr> =
     Failure 400 (JObject [(''error'', JArray [msg ''Invalid Credentials''])]) \<and>
   post_auth demo_env [demo_user] \<lparr>auth_email = Some ''b@x.com'', auth_password = Some ''wrong''\<rparr> \<noteq>
   post_auth demo_env [demo_user] \<lparr>auth_email = Some ''a@x.com'', auth_password = Some ''wrong''\<rparr>"
  by (simp add: post_auth_def check_auth_def toString_def demo_env_def demo_user_def Let_def)

section \<open>Creating or updating a profile\<close>

lemma post_profile_update:
  "db uid = Some p \<Longrightarrow> check_profile b = [] \<Longrightarrow>
   post_profile db uid b =
     (Success (set_fields (build_fields uid b) p), db(uid \<mapsto> set_fields (build_fields uid b) p))"
  by (simp add: post_profile_def Let_def)

text \<open>
  C6, as the handler has it. An update of an existing profile stores the social object
  built for the request: each of the five links is the request's value where the request
  gives one, and is unset where it gives none, whatever the profile held before. The
  top-level fields the request leaves out, and the two nested lists, are as before.
\<close>

theorem update_replaces_social:
  assumes "db uid = Some p" and "check_profile b = []"
  shows "\<exists>p'. post_profile db uid b = (Success p', db(uid \<mapsto> p')) \<and>
           social p' = \<lparr>youtube = supplied (body_youtube b), facebook = supplied (body_facebook b),
                         twitter = supplied (body_twitter b), instagram = supplied (body_instagram b),
                         linkedin = supplied (body_linkedin b)\<rparr> \<and>
           (\<not> truthy (body_company b) \<longrightarrow> company p' = company p) \<and>
           (\<not> truthy (body_website b) \<longrightarrow> website p' = website p) \<and>
           (\<not> truthy (body_location b) \<longrightarrow> location p' = location p) \<and>
           (\<not> truthy (body_bio b) \<longrightarrow> bio p' = bio p) \<and>
           (\<not> truthy (body_githubusername b) \<longrightarrow> githubusername p' = githubusername p) \<and>
           experiences p' = experiences p \<and> education p' = education p"
proof -
  let ?p' = "set_fields (build_fields uid b) p"
  have "post_profile db uid b = (Success ?p', db(uid \<mapsto> ?p'))"
    using assms by (rule post_profile_update)
  moreover have "social ?p' = \<lparr>youtube = supplied (body_youtube b), facebook = supplied (body_facebook b),
      twitter = supplied (body_twitter b), instagram = supplied (body_instagram b),
      linkedin = supplied (body_linkedin b)\<rparr>"
    by (simp add: set_fields_def build_fields_def)
  moreover have "\<not> truthy (body_company b) \<longrightarrow> company ?p' = company p"
    and "\<not> truthy (body_website b) \<longrightarrow> website ?p' = website p"
    and "\<not> truthy (body_location b) \<longrightarrow> location ?p' = location p"
    and "\<not> truthy (body_bio b) \<longrightarrow> bio ?p' = bio p"
    and "\<not> truthy (body_githubusername b) \<longrightarrow> githubusername ?p' = githubusername p"
    by (simp_all add: set_fields_def build_fields_def supplied_def orElse_def)
  moreover have "experiences ?p' = experiences p" and "education ?p' = education p"
    by (simp_all add: set_fields_def)
  ultimately show ?thesis by blast
qed

lemma demo_update_result:
  "post_profile demo_profiles ''a'' demo_update =
     (Success demo_updated, demo_profiles(''a'' \<mapsto> demo_updated))"
  by (simp add: post_profile_def check_profile_def build_fields_def set_fields_def supplied_def
      truthy_def orElse_def toString_def trim_def is_space_def demo_profiles_def demo_profile_def
      demo_update_def demo_updated_def Let_def)

theorem update_replaces_social_witness:
  "\<exists>p'. post_profile demo_profiles ''a'' demo_update = (Success p', demo_profiles(''a'' \<mapsto> p')) \<and>
         youtube (social p') = None \<and> twitter (social p') = Some ''https://twitter.com/a'' \<and>
         company p' = Some ''Acme'' \<and> experiences p' = [demo_e2, demo_e1]"
proof -
  have stored: "demo_profiles ''a'' = Some demo_profile" by (simp add: demo_profiles_def)
  have valid: "check_profile demo_update = []"
    by (simp add: check_profile_def toString_def demo_update_def)
  from update_replaces_social [where db = demo_profiles and uid = "''a''" and p = demo_profile
      and b = demo_update, OF stored valid]
  obtain p' where res: "post_profile demo_profiles ''a'' demo_update = (Success p', demo_profiles(''a'' \<mapsto> p'))"
    and soc: "social p' = \<lparr>youtube = supplied (body_youtube demo_update),
        facebook = supplied (body_facebook demo_update), twitter = supplied (body_twitter demo_update),
        instagram = supplied (body_instagram demo_update),
        linkedin = supplied (body_linkedin demo_update)\<rparr>"
    and com: "\<not> truthy (body_company demo_update) \<longrightarrow> company p' = company demo_profile"
    and exps: "experiences p' = experiences demo_profile"
    by blast
  from soc have "youtube (social p') = None" and "twitter (social p') = Some ''https://twitter.com/a''"
    by (simp_all add: supplied_def truthy_def demo_update_def)
  moreover from com have "company p' = Some ''Acme''"
    by (simp add: truthy_def demo_update_def demo_profile_def)
  moreover from exps have "experiences p' = [demo_e2, demo_e1]"
    by (simp add: demo_profile_def)
  ultimately show ?thesis using res by blast
qed

text \<open>
  The claim as the specification words it fails on an existing profile: the stored
  profile has a YouTube link, the request gives only a Twitter link, and the profile
  stored afterwards has no YouTube link.
\<close>

theorem update_clears_omitted_link_counterexample:
  "youtube (social demo_profile) = Some ''https://youtube.com/a'' \<and>
   body_youtube demo_update = None \<and>
   post_profile demo_profiles ''a'' demo_update =
     (Success demo_updated, demo_profiles(''a'' \<mapsto> demo_updated)) \<and>
   youtube (social demo_updated) = None"
  by (simp add: demo_update_result) (simp add: demo_profile_def demo_update_def demo_updated_def)

end
